theory Spec2Isabelle
  imports Main "HOL-Library.Char_ord" "HOL-Library.List_Lexorder" "HOL-Library.Multiset"
begin

section \<open>Phone number lookup service (main.py)\<close>

text \<open>
  The service is a thin orchestration over two external libraries: the numbering-plan
  library \<^verbatim>\<open>phonenumbers\<close> and the ISO country table \<^verbatim>\<open>pycountry\<close>. Neither is
  part of the repository, so both enter the model as parameters (records of functions);
  the resolver, the classifier, the authenticator and the three protected endpoints of
  \<^verbatim>\<open>main.py\<close> are translated as they are written and take the libraries they call,
  and the configured \<^verbatim>\<open>API_TOKEN\<close>, as arguments.

  Strings are byte strings (UTF-8). Python compares \<^verbatim>\<open>str\<close> values by code point;
  the byte-wise lexicographic order on UTF-8 text is the same order.
\<close>

subsection \<open>Python primitives used by the source\<close>

text \<open>Truth value of an \<^verbatim>\<open>Optional[str]\<close>: \<^verbatim>\<open>None\<close> and the empty string are falsy.\<close>

definition truthy :: "string option \<Rightarrow> bool" where
  "truthy s = (case s of None \<Rightarrow> False | Some t \<Rightarrow> t \<noteq> [])"

definition startswith :: "string \<Rightarrow> string \<Rightarrow> bool" where
  "startswith s p = (take (length p) s = p)"

text \<open>
  \<^verbatim>\<open>str.upper()\<close> is Python's Unicode case mapping, which is not a bytewise map and
  can change the length of a string. It belongs to the runtime, not to the repository,
  so the resolver takes it as the parameter \<open>upper\<close>; nothing is assumed about it.
\<close>

text \<open>An \<^verbatim>\<open>Optional[str]\<close> inside an f-string: \<^verbatim>\<open>None\<close> prints as \<^verbatim>\<open>None\<close>.\<close>

definition fstr :: "string option \<Rightarrow> string" where
  "fstr s = (case s of None \<Rightarrow> ''None'' | Some t \<Rightarrow> t)"

text \<open>
  What a function raises: an \<^verbatim>\<open>HTTPException\<close> with its status code and detail, or
  any other exception, with its text.
\<close>

datatype raised = HTTPException nat string | Exception string

subsection \<open>The external libraries, as parameters\<close>

text \<open>
  \<^verbatim>\<open>phonenumbers.parse\<close> returns a parsed number or raises. The source tells
  \<^verbatim>\<open>NumberParseException\<close> from every other exception (lines 144 and 147); each carries
  its text \<^verbatim>\<open>str(e)\<close>.
\<close>

datatype 'n parse_outcome = Parsed 'n | NumberParseException string | OtherException string

datatype PhoneNumberFormat = E164 | NATIONAL

text \<open>The integer constants of \<^verbatim>\<open>phonenumbers.PhoneNumberType\<close> that the source names.\<close>

record PhoneNumberType =
  MOBILE :: int
  FIXED_LINE :: int
  FIXED_LINE_OR_MOBILE :: int
  TOLL_FREE :: int
  PREMIUM_RATE :: int
  SHARED_COST :: int
  VOIP :: int
  PERSONAL_NUMBER :: int
  PAGER :: int
  UAN :: int
  UNKNOWN :: int

text \<open>
  The numbering-plan library over its own type \<open>'n\<close> of parsed numbers.
  \<open>region_code_for_number\<close> may return \<^verbatim>\<open>None\<close>; \<open>str_of\<close> is \<^verbatim>\<open>str(parsed_number)\<close>;
  \<open>PhoneNumberType\<close> holds the library's line-type constants.
\<close>

record 'n phonenumbers =
  parse :: "string \<Rightarrow> string option \<Rightarrow> 'n parse_outcome"
  region_code_for_number :: "'n \<Rightarrow> string option"
  number_type :: "'n \<Rightarrow> int"
  is_valid_number :: "'n \<Rightarrow> bool"
  is_possible_number :: "'n \<Rightarrow> bool"
  format_number :: "'n \<Rightarrow> PhoneNumberFormat \<Rightarrow> string"
  str_of :: "'n \<Rightarrow> string"
  PhoneNumberType :: PhoneNumberType

text \<open>
  A record of the country table. The source reads \<^verbatim>\<open>name\<close> and \<^verbatim>\<open>alpha_2\<close>
  directly and guards \<^verbatim>\<open>alpha_3\<close> and \<^verbatim>\<open>numeric\<close> with \<^verbatim>\<open>getattr(..., None)\<close>
  in the resolver, so these two attributes may be missing.
\<close>

record Country =
  name :: string
  alpha_2 :: string
  alpha_3 :: "string option"
  numeric :: "string option"

text \<open>
  \<^verbatim>\<open>pycountry.countries\<close>: iterating it yields \<open>countries\<close>; \<open>countries_get\<close> is
  \<^verbatim>\<open>countries.get(alpha_2=...)\<close>, which returns a record, returns \<^verbatim>\<open>None\<close>, or raises.
\<close>

record pycountry =
  countries :: "Country list"
  countries_get :: "string \<Rightarrow> raised + Country option"

subsection \<open>Data model (lines 34-71)\<close>

record PhoneNumberInfo =
  phone_number :: string
  country_code :: string
  country_name :: string
  country_region :: "string option"
  number_type :: string
  is_valid :: bool
  is_possible :: bool
  formatted_e164 :: string
  formatted_national :: string
  timezone :: "string option"

record ValidationResult =
  phone :: string
  is_valid :: bool
  is_possible :: bool
  country_code :: "string option"
  error :: "string option"

record CountryInfo =
  name :: string
  alpha_2 :: string
  alpha_3 :: string
  numeric :: string

record CountriesResponse =
  total :: int
  countries :: "CountryInfo list"

text \<open>The dictionary that \<^verbatim>\<open>get_country_info\<close> returns (lines 95-100).\<close>

record CountryDict =
  name :: string
  alpha_2 :: string
  alpha_3 :: "string option"
  numeric :: "string option"

subsection \<open>Number classifier (lines 74-107)\<close>

text \<open>
  The dictionary literal \<^verbatim>\<open>_NUMBER_TYPE_MAPPING\<close>, built entry by entry in source
  order: a later entry with an equal key replaces the earlier one.
\<close>

definition NUMBER_TYPE_MAPPING :: "PhoneNumberType \<Rightarrow> (int \<rightharpoonup> string)" where
  "NUMBER_TYPE_MAPPING t =
     Map.empty
       (MOBILE t \<mapsto> ''MOBILE'',
        FIXED_LINE t \<mapsto> ''FIXED_LINE'',
        FIXED_LINE_OR_MOBILE t \<mapsto> ''FIXED_LINE_OR_MOBILE'',
        TOLL_FREE t \<mapsto> ''TOLL_FREE'',
        PREMIUM_RATE t \<mapsto> ''PREMIUM_RATE'',
        SHARED_COST t \<mapsto> ''SHARED_COST'',
        VOIP t \<mapsto> ''VOIP'',
        PERSONAL_NUMBER t \<mapsto> ''PERSONAL_NUMBER'',
        PAGER t \<mapsto> ''PAGER'',
        UAN t \<mapsto> ''UAN'',
        UNKNOWN t \<mapsto> ''UNKNOWN'')"

definition get_number_type_name :: "PhoneNumberType \<Rightarrow> int \<Rightarrow> string" where
  "get_number_type_name t ntype =
     (case NUMBER_TYPE_MAPPING t ntype of Some label \<Rightarrow> label | None \<Rightarrow> ''UNKNOWN'')"

subsection \<open>Token authenticator (lines 110-113)\<close>

definition validate_api_token :: "string \<Rightarrow> string option \<Rightarrow> bool" where
  "validate_api_token API_TOKEN x_api_token =
     (if \<not> truthy x_api_token then False
      else (case x_api_token of None \<Rightarrow> False | Some t \<Rightarrow> t = API_TOKEN))"

subsection \<open>Country metadata resolver (lines 89-103)\<close>

text \<open>
  The \<^verbatim>\<open>try\<close> block of \<^verbatim>\<open>get_country_info\<close>, with the table queries it makes.
  The endpoint passes on whatever \<open>region_code_for_number\<close> returned, so the argument
  may be \<^verbatim>\<open>None\<close>, where \<^verbatim>\<open>country_code.upper()\<close> raises before the table is read.
\<close>

definition get_country_info_try ::
  "(string \<Rightarrow> string) \<Rightarrow> pycountry \<Rightarrow> string option \<Rightarrow>
     (raised + CountryDict option) \<times> string list" where
  "get_country_info_try upper db code =
     (case code of
        None \<Rightarrow> (Inl (Exception ''AttributeError''), [])
      | Some c \<Rightarrow>
          (case countries_get db (upper c) of
             Inl e \<Rightarrow> (Inl e, [upper c])
           | Inr None \<Rightarrow> (Inr None, [upper c])
           | Inr (Some country) \<Rightarrow>
               (Inr (Some \<lparr>CountryDict.name = Country.name country,
                            alpha_2 = Country.alpha_2 country,
                            alpha_3 = Country.alpha_3 country,
                            numeric = Country.numeric country\<rparr>),
                [upper c])))"

text \<open>The undecorated function: \<^verbatim>\<open>except Exception\<close> turns every raise into \<^verbatim>\<open>None\<close>.\<close>

definition get_country_info_wrapped ::
  "(string \<Rightarrow> string) \<Rightarrow> pycountry \<Rightarrow> string option \<Rightarrow>
     CountryDict option \<times> string list" where
  "get_country_info_wrapped upper db code =
     (case get_country_info_try upper db code of
        (Inl e, qs) \<Rightarrow> (None, qs)
      | (Inr r, qs) \<Rightarrow> (r, qs))"

text \<open>
  The state behind \<^verbatim>\<open>@lru_cache(maxsize=256)\<close>: the cached entries, most recently used
  first, keyed by the argument as it was passed; and the log of the queries made to the
  country table, oldest first.
\<close>

record resolver_state =
  cache :: "(string option \<times> CountryDict option) list"
  queries :: "string list"

definition maxsize :: nat where
  "maxsize = 256"

definition get_country_info ::
  "(string \<Rightarrow> string) \<Rightarrow> pycountry \<Rightarrow> string option \<Rightarrow> resolver_state \<Rightarrow>
     CountryDict option \<times> resolver_state" where
  "get_country_info upper db code st =
     (case map_of (cache st) code of
        Some result \<Rightarrow>
          (result, st\<lparr>cache := (code, result) # filter (\<lambda>e. fst e \<noteq> code) (cache st)\<rparr>)
      | None \<Rightarrow>
          (case get_country_info_wrapped upper db code of
             (result, qs) \<Rightarrow>
               (result, \<lparr>cache = take maxsize ((code, result) # cache st),
                         queries = queries st @ qs\<rparr>)))"

subsection \<open>Lookup endpoint (lines 126-177)\<close>

text \<open>
  \<^verbatim>\<open>PhoneNumberInfo\<close> declares \<^verbatim>\<open>country_code: str\<close>, so building the response with
  \<^verbatim>\<open>None\<close> there raises a validation error.
\<close>

definition lookup_phone_number ::
  "'n phonenumbers \<Rightarrow> (string \<Rightarrow> string) \<Rightarrow> pycountry \<Rightarrow> string \<Rightarrow> string \<Rightarrow>
     string option \<Rightarrow> string \<Rightarrow> resolver_state \<Rightarrow>
     (raised + PhoneNumberInfo) \<times> resolver_state" where
  "lookup_phone_number lib upper db API_TOKEN phone_arg country x_api_token st =
     (if \<not> validate_api_token API_TOKEN (Some x_api_token)
      then (Inl (HTTPException 401 ''Invalid or missing API token''), st)
      else
        let ph = (if \<not> startswith phone_arg ''+'' \<and> \<not> truthy country
                  then ''+'' @ phone_arg else phone_arg)
        in case parse lib ph country of
             NumberParseException e \<Rightarrow>
               (Inl (HTTPException 400 ''Invalid phone number format''), st)
           | OtherException e \<Rightarrow>
               (Inl (HTTPException 400 ''Error parsing phone number''), st)
           | Parsed parsed_number \<Rightarrow>
               (let code = region_code_for_number lib parsed_number
                in case get_country_info upper db code st of
                     (None, st') \<Rightarrow>
                       (Inl (HTTPException 404 (''Country not found: '' @ fstr code)), st')
                   | (Some country_info, st') \<Rightarrow>
                       (let ntype = phonenumbers.number_type lib parsed_number;
                            number_type_name =
                              get_number_type_name (PhoneNumberType lib) ntype;
                            valid = is_valid_number lib parsed_number;
                            possible = is_possible_number lib parsed_number;
                            e164 = format_number lib parsed_number E164;
                            national = format_number lib parsed_number NATIONAL
                        in case code of
                             None \<Rightarrow> (Inl (Exception ''ValidationError''), st')
                           | Some cc \<Rightarrow>
                               (Inr \<lparr>phone_number = str_of lib parsed_number,
                                     country_code = cc,
                                     country_name = CountryDict.name country_info,
                                     country_region = None,
                                     number_type = number_type_name,
                                     is_valid = valid,
                                     is_possible = possible,
                                     formatted_e164 = e164,
                                     formatted_national = national,
                                     timezone = None\<rparr>,
                                st'))))"

subsection \<open>Validation endpoint (lines 180-219)\<close>

text \<open>
  Only \<^verbatim>\<open>NumberParseException\<close> is caught here; any other exception of the parser
  leaves the function.
\<close>

definition validate_phone_number ::
  "'n phonenumbers \<Rightarrow> string \<Rightarrow> string \<Rightarrow> string option \<Rightarrow> string \<Rightarrow>
     raised + ValidationResult" where
  "validate_phone_number lib API_TOKEN phone_arg country x_api_token =
     (if \<not> validate_api_token API_TOKEN (Some x_api_token)
      then Inl (HTTPException 401 ''Invalid or missing API token'')
      else
        let ph = (if \<not> startswith phone_arg ''+'' \<and> \<not> truthy country
                  then ''+'' @ phone_arg else phone_arg)
        in case parse lib ph country of
             Parsed parsed_number \<Rightarrow>
               (let valid = is_valid_number lib parsed_number;
                    possible = is_possible_number lib parsed_number;
                    detected_country = region_code_for_number lib parsed_number
                in Inr \<lparr>phone = ph,
                        is_valid = valid,
                        is_possible = possible,
                        country_code = detected_country,
                        error = None\<rparr>)
           | NumberParseException e \<Rightarrow>
               Inr \<lparr>phone = ph,
                    is_valid = False,
                    is_possible = False,
                    country_code = None,
                    error = Some e\<rparr>
           | OtherException e \<Rightarrow> Inl (Exception e))"

subsection \<open>Country listing endpoint (lines 222-248)\<close>

text \<open>
  The loop of lines 231-240 over the country table. \<^verbatim>\<open>CountryInfo\<close> reads
  \<^verbatim>\<open>alpha_3\<close> and \<^verbatim>\<open>numeric\<close> without a default, so a record that lacks one raises.
\<close>

fun append_countries :: "Country list \<Rightarrow> CountryInfo list \<Rightarrow> raised + CountryInfo list" where
  "append_countries [] acc = Inr acc"
| "append_countries (country # rest) acc =
     (case Country.alpha_3 country of
        None \<Rightarrow> Inl (Exception ''AttributeError'')
      | Some a3 \<Rightarrow>
          (case Country.numeric country of
             None \<Rightarrow> Inl (Exception ''AttributeError'')
           | Some nu \<Rightarrow>
               append_countries rest
                 (acc @ [\<lparr>CountryInfo.name = Country.name country,
                           alpha_2 = Country.alpha_2 country,
                           alpha_3 = a3,
                           numeric = nu\<rparr>])))"

definition get_supported_countries ::
  "pycountry \<Rightarrow> string \<Rightarrow> string \<Rightarrow> raised + CountriesResponse" where
  "get_supported_countries db API_TOKEN x_api_token =
     (if \<not> validate_api_token API_TOKEN (Some x_api_token)
      then Inl (HTTPException 401 ''Invalid or missing API token'')
      else
        case append_countries (pycountry.countries db) [] of
          Inl e \<Rightarrow> Inl e
        | Inr cs \<Rightarrow>
            (let countries_sorted = sort_key CountryInfo.name cs
             in Inr \<lparr>total = int (length countries_sorted),
                     countries = countries_sorted\<rparr>))"

section \<open>Notions used by the properties\<close>

text \<open>The resolver's state when the process starts: nothing cached, no query made.\<close>

definition initial_state :: resolver_state where
  "initial_state = \<lparr>cache = [], queries = []\<rparr>"

text \<open>
  The invariant of the cache: at most \<open>maxsize\<close> entries, one per key, each holding what
  the undecorated function returns for its key.
\<close>

definition cache_inv :: "(string \<Rightarrow> string) \<Rightarrow> pycountry \<Rightarrow> resolver_state \<Rightarrow> bool" where
  "cache_inv upper db st =
     (length (cache st) \<le> maxsize \<and> distinct (map fst (cache st)) \<and>
      list_all (\<lambda>e. snd e = fst (get_country_info_wrapped upper db (fst e))) (cache st))"

text \<open>
  The coercion as the specification words it: the phone string is prefixed with a plus
  sign iff it does not start with one and no country hint is given (the source tests the
  hint with \<^verbatim>\<open>not country\<close>, so an empty hint counts as none).
\<close>

definition no_hint :: "string option \<Rightarrow> bool" where
  "no_hint country = (country = None \<or> country = Some [])"

definition has_plus :: "string \<Rightarrow> bool" where
  "has_plus p = (case p of [] \<Rightarrow> False | c # cs \<Rightarrow> c = CHR ''+'')"

definition plus_prefixed :: "string \<Rightarrow> string option \<Rightarrow> string" where
  "plus_prefixed p country = (if \<not> has_plus p \<and> no_hint country then CHR ''+'' # p else p)"

text \<open>
  The resolver as the specification words it: the input is normalised to uppercase and
  the country table is looked up by that code (\<open>table_queries\<close> lists the queries this
  makes); the result is absent when the code is absent, when the table has no record,
  or when the lookup raises.
\<close>

definition table_queries :: "(string \<Rightarrow> string) \<Rightarrow> string option \<Rightarrow> string list" where
  "table_queries upper code = (case code of None \<Rightarrow> [] | Some c \<Rightarrow> [upper c])"

definition table_record :: "(string \<Rightarrow> string) \<Rightarrow> pycountry \<Rightarrow> string option \<Rightarrow> CountryDict option" where
  "table_record upper db code =
     (case code of
        None \<Rightarrow> None
      | Some c \<Rightarrow>
          (case countries_get db (upper c) of
             Inr (Some country) \<Rightarrow>
               Some \<lparr>CountryDict.name = Country.name country,
                     alpha_2 = Country.alpha_2 country,
                     alpha_3 = Country.alpha_3 country,
                     numeric = Country.numeric country\<rparr>
           | _ \<Rightarrow> None))"

text \<open>The keys of the classifier's table, in source order, and their labels.\<close>

definition known_types :: "PhoneNumberType \<Rightarrow> int list" where
  "known_types t =
     [MOBILE t, FIXED_LINE t, FIXED_LINE_OR_MOBILE t, TOLL_FREE t, PREMIUM_RATE t,
      SHARED_COST t, VOIP t, PERSONAL_NUMBER t, PAGER t, UAN t, UNKNOWN t]"

definition known_labels :: "string list" where
  "known_labels =
     [''MOBILE'', ''FIXED_LINE'', ''FIXED_LINE_OR_MOBILE'', ''TOLL_FREE'', ''PREMIUM_RATE'',
      ''SHARED_COST'', ''VOIP'', ''PERSONAL_NUMBER'', ''PAGER'', ''UAN'', ''UNKNOWN'']"

text \<open>E.164 shape: a plus sign followed by decimal digits and nothing else.\<close>

definition is_digit :: "char \<Rightarrow> bool" where
  "is_digit c = (c \<in> set ''0123456789'')"

definition is_e164 :: "string \<Rightarrow> bool" where
  "is_e164 s = (case s of [] \<Rightarrow> False | c # ds \<Rightarrow> c = CHR ''+'' \<and> ds \<noteq> [] \<and> list_all is_digit ds)"

text \<open>
  The library's contract that the possibility check is the more lenient one: every number
  it finds valid it also finds possible.
\<close>

definition valid_numbers_possible :: "'n phonenumbers \<Rightarrow> bool" where
  "valid_numbers_possible lib = (\<forall>n. is_valid_number lib n \<longrightarrow> is_possible_number lib n)"

text \<open>The library formats every number it parses, in E.164 format, as an E.164 string.\<close>

definition formats_e164 :: "'n phonenumbers \<Rightarrow> bool" where
  "formats_e164 lib =
     (\<forall>s region n. parse lib s region = Parsed n \<longrightarrow> is_e164 (format_number lib n E164))"

text \<open>A table record that carries all four attributes the listing reads.\<close>

definition complete_record :: "Country \<Rightarrow> bool" where
  "complete_record c = (Country.alpha_3 c \<noteq> None \<and> Country.numeric c \<noteq> None)"

text \<open>The four fields of a table record and of a listed record, for comparing the two.\<close>

definition country_fields :: "Country \<Rightarrow> string \<times> string \<times> string option \<times> string option" where
  "country_fields c = (Country.name c, Country.alpha_2 c, Country.alpha_3 c, Country.numeric c)"

definition info_fields :: "CountryInfo \<Rightarrow> string \<times> string \<times> string option \<times> string option" where
  "info_fields i =
     (CountryInfo.name i, CountryInfo.alpha_2 i, Some (CountryInfo.alpha_3 i), Some (CountryInfo.numeric i))"

section \<open>A small numbering plan and country table for concrete runs\<close>

text \<open>
  Sample collaborators on which the model is run. Parsed numbers are digit strings
  (calling code first). Numbers under \<^verbatim>\<open>+1415\<close> belong to region US and numbers under
  \<^verbatim>\<open>+44\<close> to GB; any other number parses but has no region, as the library's
  region query does for a number that matches no region of its calling code.
\<close>

definition sample_types :: PhoneNumberType where
  "sample_types =
     \<lparr>MOBILE = 1, FIXED_LINE = 0, FIXED_LINE_OR_MOBILE = 2, TOLL_FREE = 3, PREMIUM_RATE = 4,
      SHARED_COST = 5, VOIP = 6, PERSONAL_NUMBER = 7, PAGER = 8, UAN = 9, UNKNOWN = 99\<rparr>"

definition sample_parse :: "string \<Rightarrow> string option \<Rightarrow> string parse_outcome" where
  "sample_parse p region =
     (if startswith p ''+'' \<and> tl p \<noteq> [] \<and> list_all is_digit (tl p) then Parsed (tl p)
      else if region = Some ''US'' \<and> p \<noteq> [] \<and> list_all is_digit p then Parsed (CHR ''1'' # p)
      else NumberParseException ''(1) The string supplied did not seem to be a phone number.'')"

definition sample_region :: "string \<Rightarrow> string option" where
  "sample_region n =
     (if startswith n ''1415'' then Some ''US''
      else if startswith n ''44'' then Some ''GB''
      else None)"

definition sample_lib :: "string phonenumbers" where
  "sample_lib =
     \<lparr>parse = sample_parse,
      region_code_for_number = sample_region,
      number_type = (\<lambda>n. if startswith n ''1415'' then 2 else 99),
      is_valid_number = (\<lambda>n. sample_region n \<noteq> None \<and> length n = 11),
      is_possible_number = (\<lambda>n. length n = 11),
      format_number = (\<lambda>n f. case f of E164 \<Rightarrow> CHR ''+'' # n | NATIONAL \<Rightarrow> tl n),
      str_of = (\<lambda>n. ''Country Code: '' @ take 1 n @ '' National Number: '' @ drop 1 n),
      PhoneNumberType = sample_types\<rparr>"

text \<open>
  The case mapping used in the concrete runs: letters \<^verbatim>\<open>a\<close> to \<^verbatim>\<open>z\<close> go to
  \<^verbatim>\<open>A\<close> to \<^verbatim>\<open>Z\<close> and every other byte is kept, which is what \<^verbatim>\<open>str.upper()\<close>
  does on the ASCII strings of these runs.
\<close>

definition ascii_upper_char :: "char \<Rightarrow> char" where
  "ascii_upper_char c =
     (case map_of (zip ''abcdefghijklmnopqrstuvwxyz'' ''ABCDEFGHIJKLMNOPQRSTUVWXYZ'') c of
        Some u \<Rightarrow> u
      | None \<Rightarrow> c)"

definition ascii_upper :: "string \<Rightarrow> string" where
  "ascii_upper s = map ascii_upper_char s"

definition sample_countries :: "Country list" where
  "sample_countries =
     [\<lparr>Country.name = ''United States'', alpha_2 = ''US'', alpha_3 = Some ''USA'',
       numeric = Some ''840''\<rparr>,
      \<lparr>Country.name = ''Greece'', alpha_2 = ''GR'', alpha_3 = Some ''GRC'',
       numeric = Some ''300''\<rparr>,
      \<lparr>Country.name = ''United Kingdom'', alpha_2 = ''GB'', alpha_3 = Some ''GBR'',
       numeric = Some ''826''\<rparr>]"

definition sample_db :: pycountry where
  "sample_db =
     \<lparr>pycountry.countries = sample_countries,
      countries_get = (\<lambda>code. Inr (find (\<lambda>c. Country.alpha_2 c = code) sample_countries))\<rparr>"

section \<open>Auxiliary facts\<close>

subsection \<open>The coercion and the resolver\<close>

lemma startswith_plus: "startswith p ''+'' = has_plus p"
  by (cases p) (simp_all add: startswith_def has_plus_def)

lemma truthy_no_hint: "truthy country = (\<not> no_hint country)"
  by (cases country) (simp_all add: truthy_def no_hint_def)

lemma coercion_eq:
  "(if \<not> startswith p ''+'' \<and> \<not> truthy country then ''+'' @ p else p) = plus_prefixed p country"
  by (simp add: startswith_plus truthy_no_hint plus_prefixed_def)

lemma wrapped_None: "get_country_info_wrapped upper db None = (None, [])"
  by (simp add: get_country_info_wrapped_def get_country_info_try_def)

lemma wrapped_queries:
  "snd (get_country_info_wrapped upper db (Some c)) = [upper c]"
  by (simp add: get_country_info_wrapped_def get_country_info_try_def split: sum.splits option.splits)

lemma cache_inv_initial: "cache_inv upper db initial_state"
  by (simp add: cache_inv_def initial_state_def)

lemma cache_inv_lookup:
  assumes "cache_inv upper db st" and "map_of (cache st) code = Some r"
  shows "r = fst (get_country_info_wrapped upper db code)"
proof -
  from assms(2) have "(code, r) \<in> set (cache st)" by (rule map_of_SomeD)
  with assms(1) show ?thesis by (auto simp: cache_inv_def list_all_iff)
qed

lemma get_country_info_result:
  assumes "cache_inv upper db st"
  shows "fst (get_country_info upper db code st) = fst (get_country_info_wrapped upper db code)"
proof (cases "map_of (cache st) code")
  case None
  then show ?thesis by (simp add: get_country_info_def split: prod.splits)
next
  case (Some r)
  with assms have "r = fst (get_country_info_wrapped upper db code)" by (rule cache_inv_lookup[rotated -1, rotated])
  with Some show ?thesis by (simp add: get_country_info_def)
qed

lemma get_country_info_hit:
  "map_of (cache (snd (get_country_info upper db code st))) code = Some (fst (get_country_info upper db code st))"
  by (cases "map_of (cache st) code") (simp_all add: get_country_info_def maxsize_def split: prod.splits)

lemma get_country_info_again:
  "get_country_info upper db code (snd (get_country_info upper db code st)) =
     (fst (get_country_info upper db code st),
      (snd (get_country_info upper db code st))
        \<lparr>cache := (code, fst (get_country_info upper db code st)) #
                   filter (\<lambda>e. fst e \<noteq> code) (cache (snd (get_country_info upper db code st)))\<rparr>)"
  using get_country_info_hit[of upper db code st]
  by (simp add: get_country_info_def[of upper db code "snd (get_country_info upper db code st)"])

lemma filter_keys_length:
  assumes "map_of xs k = Some v"
  shows "length (filter (\<lambda>e. fst e \<noteq> k) xs) < length xs"
proof -
  from assms have "(k, v) \<in> set xs" by (rule map_of_SomeD)
  then show ?thesis by (rule length_filter_less) simp
qed

lemma cache_inv_step:
  assumes "cache_inv upper db st"
  shows "cache_inv upper db (snd (get_country_info upper db code st))"
proof (cases "map_of (cache st) code")
  case None
  then have notin: "code \<notin> fst ` set (cache st)" by (simp add: map_of_eq_None_iff)
  obtain r qs where w: "get_country_info_wrapped upper db code = (r, qs)" by (cases "get_country_info_wrapped upper db code")
  have c: "cache (snd (get_country_info upper db code st)) = take maxsize ((code, r) # cache st)"
    using None w by (simp add: get_country_info_def)
  have "distinct (map fst ((code, r) # cache st))" using assms notin by (simp add: cache_inv_def)
  then have d: "distinct (map fst (take maxsize ((code, r) # cache st)))"
    by (metis distinct_take take_map)
  have "list_all (\<lambda>e. snd e = fst (get_country_info_wrapped upper db (fst e))) ((code, r) # cache st)"
    using assms w by (simp add: cache_inv_def)
  then have l: "list_all (\<lambda>e. snd e = fst (get_country_info_wrapped upper db (fst e))) (take maxsize ((code, r) # cache st))"
    unfolding list_all_iff using in_set_takeD by fast
  show ?thesis unfolding cache_inv_def c using d l by simp
next
  case (Some r)
  have c: "cache (snd (get_country_info upper db code st)) = (code, r) # filter (\<lambda>e. fst e \<noteq> code) (cache st)"
    using Some by (simp add: get_country_info_def)
  have r: "r = fst (get_country_info_wrapped upper db code)" using assms Some by (rule cache_inv_lookup)
  have len: "length (filter (\<lambda>e. fst e \<noteq> code) (cache st)) < length (cache st)"
    using Some by (rule filter_keys_length)
  have d: "distinct (map fst (filter (\<lambda>e. fst e \<noteq> code) (cache st)))"
    using assms by (simp add: cache_inv_def distinct_map_filter)
  have l: "list_all (\<lambda>e. snd e = fst (get_country_info_wrapped upper db (fst e))) (filter (\<lambda>e. fst e \<noteq> code) (cache st))"
    using assms by (auto simp: cache_inv_def list_all_iff)
  show ?thesis unfolding cache_inv_def c using assms len d l r
    by (auto simp: cache_inv_def)
qed

lemma get_country_info_queries:
  "queries (snd (get_country_info upper db code st)) =
     (if map_of (cache st) code = None then queries st @ snd (get_country_info_wrapped upper db code)
      else queries st)"
  by (cases "map_of (cache st) code") (simp_all add: get_country_info_def split: prod.splits)

subsection \<open>The endpoints, case by case\<close>

lemma lookup_unauthorized:
  "\<not> validate_api_token API_TOKEN (Some tok) \<Longrightarrow>
   lookup_phone_number lib upper db API_TOKEN phone_arg country tok st =
     (Inl (HTTPException 401 ''Invalid or missing API token''), st)"
  by (simp add: lookup_phone_number_def)

lemma lookup_parse_error:
  assumes "validate_api_token API_TOKEN (Some tok)"
    and "parse lib (plus_prefixed phone_arg country) country = NumberParseException e"
  shows "lookup_phone_number lib upper db API_TOKEN phone_arg country tok st =
           (Inl (HTTPException 400 ''Invalid phone number format''), st)"
  unfolding lookup_phone_number_def coercion_eq using assms by simp

lemma lookup_other_error:
  assumes "validate_api_token API_TOKEN (Some tok)"
    and "parse lib (plus_prefixed phone_arg country) country = OtherException e"
  shows "lookup_phone_number lib upper db API_TOKEN phone_arg country tok st =
           (Inl (HTTPException 400 ''Error parsing phone number''), st)"
  unfolding lookup_phone_number_def coercion_eq using assms by simp

lemma lookup_parsed:
  assumes "validate_api_token API_TOKEN (Some tok)"
    and "parse lib (plus_prefixed phone_arg country) country = Parsed n"
  shows "fst (lookup_phone_number lib upper db API_TOKEN phone_arg country tok st) =
           (case fst (get_country_info upper db (region_code_for_number lib n) st) of
              None \<Rightarrow>
                Inl (HTTPException 404 (''Country not found: '' @ fstr (region_code_for_number lib n)))
            | Some info \<Rightarrow>
                (case region_code_for_number lib n of
                   None \<Rightarrow> Inl (Exception ''ValidationError'')
                 | Some cc \<Rightarrow>
                     Inr \<lparr>phone_number = str_of lib n,
                          country_code = cc,
                          country_name = CountryDict.name info,
                          country_region = None,
                          number_type =
                            get_number_type_name (PhoneNumberType lib) (phonenumbers.number_type lib n),
                          is_valid = is_valid_number lib n,
                          is_possible = is_possible_number lib n,
                          formatted_e164 = format_number lib n E164,
                          formatted_national = format_number lib n NATIONAL,
                          timezone = None\<rparr>))"
  unfolding lookup_phone_number_def coercion_eq using assms
  by (simp add: Let_def split: prod.splits option.splits)

lemma lookup_success_cases:
  assumes "fst (lookup_phone_number lib upper db API_TOKEN phone_arg country tok st) = Inr r"
  shows "\<exists>n cc info. parse lib (plus_prefixed phone_arg country) country = Parsed n \<and>
           region_code_for_number lib n = Some cc \<and>
           fst (get_country_info upper db (Some cc) st) = Some info \<and>
           r = \<lparr>phone_number = str_of lib n,
                country_code = cc,
                country_name = CountryDict.name info,
                country_region = None,
                number_type =
                  get_number_type_name (PhoneNumberType lib) (phonenumbers.number_type lib n),
                is_valid = is_valid_number lib n,
                is_possible = is_possible_number lib n,
                formatted_e164 = format_number lib n E164,
                formatted_national = format_number lib n NATIONAL,
                timezone = None\<rparr>"
proof -
  have auth: "validate_api_token API_TOKEN (Some tok)"
    using assms by (cases "validate_api_token API_TOKEN (Some tok)") (simp_all add: lookup_unauthorized)
  show ?thesis
  proof (cases "parse lib (plus_prefixed phone_arg country) country")
    case (Parsed n)
    from assms show ?thesis
      unfolding lookup_parsed[OF auth Parsed] using Parsed
      by (auto split: option.splits)
  next
    case (NumberParseException e)
    with assms auth show ?thesis by (simp add: lookup_parse_error)
  next
    case (OtherException e)
    with assms auth show ?thesis by (simp add: lookup_other_error)
  qed
qed

lemma validate_unfold:
  assumes "validate_api_token API_TOKEN (Some tok)"
  shows "validate_phone_number lib API_TOKEN phone_arg country tok =
     (case parse lib (plus_prefixed phone_arg country) country of
        Parsed n \<Rightarrow>
          Inr \<lparr>phone = plus_prefixed phone_arg country,
               is_valid = is_valid_number lib n,
               is_possible = is_possible_number lib n,
               country_code = region_code_for_number lib n,
               error = None\<rparr>
      | NumberParseException e \<Rightarrow>
          Inr \<lparr>phone = plus_prefixed phone_arg country,
               is_valid = False,
               is_possible = False,
               country_code = None,
               error = Some e\<rparr>
      | OtherException e \<Rightarrow> Inl (Exception e))"
  unfolding validate_phone_number_def coercion_eq using assms
  by (simp add: Let_def split: parse_outcome.splits)

lemma validate_unauthorized:
  "\<not> validate_api_token API_TOKEN (Some tok) \<Longrightarrow>
   validate_phone_number lib API_TOKEN phone_arg country tok =
     Inl (HTTPException 401 ''Invalid or missing API token'')"
  by (simp add: validate_phone_number_def)

subsection \<open>Runs on the sample library and table\<close>

lemma sample_auth: "validate_api_token ''secret'' (Some ''secret'')"
  by (simp add: validate_api_token_def truthy_def)

lemma sample_parse_us: "parse sample_lib (plus_prefixed ''+14155552671'' None) None = Parsed ''14155552671''"
  by (simp add: sample_lib_def sample_parse_def plus_prefixed_def has_plus_def no_hint_def
        startswith_def is_digit_def)

lemma sample_parse_hint: "parse sample_lib (plus_prefixed ''4155552671'' (Some ''US'')) (Some ''US'') = Parsed ''14155552671''"
  by (simp add: sample_lib_def sample_parse_def plus_prefixed_def has_plus_def no_hint_def
        startswith_def is_digit_def)

lemma sample_parse_noregion: "parse sample_lib (plus_prefixed ''12005550123'' None) None = Parsed ''12005550123''"
  by (simp add: sample_lib_def sample_parse_def plus_prefixed_def has_plus_def no_hint_def
        startswith_def is_digit_def)

lemma sample_parse_bad: "parse sample_lib (plus_prefixed ''not-a-number'' None) None =
     NumberParseException ''(1) The string supplied did not seem to be a phone number.''"
  by (simp add: sample_lib_def sample_parse_def plus_prefixed_def has_plus_def no_hint_def
        startswith_def is_digit_def)

lemma sample_region_us: "region_code_for_number sample_lib ''14155552671'' = Some ''US''"
  by (simp add: sample_lib_def sample_region_def startswith_def)

lemma sample_region_none: "region_code_for_number sample_lib ''12005550123'' = None"
  by (simp add: sample_lib_def sample_region_def startswith_def)

lemma sample_resolve_us:
  "fst (get_country_info_wrapped ascii_upper sample_db (Some ''US'')) =
     Some \<lparr>CountryDict.name = ''United States'', alpha_2 = ''US'', alpha_3 = Some ''USA'',
           numeric = Some ''840''\<rparr>"
  by (simp add: get_country_info_wrapped_def get_country_info_try_def sample_db_def
      sample_countries_def ascii_upper_def ascii_upper_char_def)

subsection \<open>The listing loop and further sample runs\<close>

lemma append_countries_complete:
  assumes "list_all complete_record cs"
  shows "\<exists>out. append_countries cs acc = Inr (acc @ out) \<and> map info_fields out = map country_fields cs"
  using assms
proof (induction cs arbitrary: acc)
  case Nil
  then show ?case by simp
next
  case (Cons c cs)
  from Cons.prems obtain a3 nu where a3: "Country.alpha_3 c = Some a3" and nu: "Country.numeric c = Some nu"
    by (auto simp: complete_record_def)
  let ?i = "\<lparr>CountryInfo.name = Country.name c, alpha_2 = Country.alpha_2 c, alpha_3 = a3, numeric = nu\<rparr>"
  from Cons.prems have "list_all complete_record cs" by simp
  from Cons.IH[OF this, of "acc @ [?i]"] obtain out where
    out: "append_countries cs (acc @ [?i]) = Inr ((acc @ [?i]) @ out)"
    and m: "map info_fields out = map country_fields cs" by blast
  have "append_countries (c # cs) acc = Inr (acc @ (?i # out))"
    using a3 nu out by simp
  moreover have "map info_fields (?i # out) = map country_fields (c # cs)"
    using m a3 nu by (simp add: info_fields_def country_fields_def)
  ultimately show ?case by blast
qed

lemma info_alpha_2: "CountryInfo.alpha_2 = fst \<circ> snd \<circ> info_fields"
  by (rule ext) (simp add: info_fields_def)

lemma country_alpha_2: "Country.alpha_2 = fst \<circ> snd \<circ> country_fields"
  by (rule ext) (simp add: country_fields_def)

lemma sample_valid_possible: "valid_numbers_possible sample_lib"
  by (simp add: valid_numbers_possible_def sample_lib_def)

lemma sample_formats_e164: "formats_e164 sample_lib"
  by (auto simp: formats_e164_def sample_lib_def sample_parse_def is_e164_def is_digit_def
      split: if_splits)

lemma sample_lookup_us:
  "fst (lookup_phone_number sample_lib ascii_upper sample_db ''secret'' ''+14155552671'' None ''secret'' initial_state) =
     Inr \<lparr>phone_number = ''Country Code: 1 National Number: 4155552671'',
          country_code = ''US'', country_name = ''United States'',
          country_region = None, number_type = ''FIXED_LINE_OR_MOBILE'',
          is_valid = True, is_possible = True,
          formatted_e164 = ''+14155552671'',
          formatted_national = ''4155552671'', timezone = None\<rparr>"
proof -
  have g: "fst (get_country_info ascii_upper sample_db (Some ''US'') initial_state) =
     Some \<lparr>CountryDict.name = ''United States'', alpha_2 = ''US'', alpha_3 = Some ''USA'',
           numeric = Some ''840''\<rparr>"
    using get_country_info_result[OF cache_inv_initial, of ascii_upper sample_db "Some ''US''"]
    by (simp add: sample_resolve_us)
  show ?thesis
    unfolding lookup_parsed[OF sample_auth sample_parse_us] sample_region_us g
    by (simp add: sample_lib_def sample_region_def startswith_def get_number_type_name_def
        NUMBER_TYPE_MAPPING_def sample_types_def)
qed

lemma sample_validate_us:
  "validate_phone_number sample_lib ''secret'' ''+14155552671'' None ''secret'' =
     Inr \<lparr>phone = ''+14155552671'', is_valid = True, is_possible = True,
          country_code = Some ''US'', error = None\<rparr>"
  unfolding validate_unfold[OF sample_auth] sample_parse_us
  by (simp add: sample_lib_def sample_region_def startswith_def plus_prefixed_def has_plus_def)

lemma sample_parse_plain:
  "parse sample_lib (plus_prefixed ''14155552671'' None) None = Parsed ''14155552671''"
  by (simp add: sample_lib_def sample_parse_def plus_prefixed_def has_plus_def no_hint_def
        startswith_def is_digit_def)

subsection \<open>The resolver against its specification\<close>

lemma wrapped_table:
  "get_country_info_wrapped upper db code = (table_record upper db code, table_queries upper code)"
  by (simp add: get_country_info_wrapped_def get_country_info_try_def table_record_def
      table_queries_def split: option.splits sum.splits)

lemma table_record_upper:
  assumes "map_option upper code' = map_option upper code"
  shows "table_record upper db code' = table_record upper db code"
proof (cases code)
  case None
  with assms show ?thesis by simp
next
  case (Some c)
  with assms obtain c' where "code' = Some c'" and "upper c' = upper c" by auto
  with Some show ?thesis by (simp add: table_record_def)
qed

lemma get_country_info_miss:
  assumes "map_of (cache st) code = None"
  shows "get_country_info upper db code st =
           (table_record upper db code,
            \<lparr>cache = take maxsize ((code, table_record upper db code) # cache st),
             queries = queries st @ table_queries upper code\<rparr>)"
  using assms by (simp add: get_country_info_def wrapped_table)

lemma get_country_info_cached:
  assumes "map_of (cache st) code = Some r"
  shows "get_country_info upper db code st =
           (r, st\<lparr>cache := (code, r) # filter (\<lambda>e. fst e \<noteq> code) (cache st)\<rparr>)"
  using assms by (simp add: get_country_info_def)

lemma map_of_take_None:
  assumes "map_of xs k = None"
  shows "map_of (take n xs) k = None"
proof -
  from assms have "k \<notin> fst ` set xs" by (simp add: map_of_eq_None_iff)
  then have "k \<notin> fst ` set (take n xs)" using set_take_subset[of n xs] by blast
  then show ?thesis by (simp add: map_of_eq_None_iff)
qed

lemma map_of_filter_None:
  assumes "map_of xs k = None"
  shows "map_of (filter P xs) k = None"
proof -
  from assms have "k \<notin> fst ` set xs" by (simp add: map_of_eq_None_iff)
  then have "k \<notin> fst ` set (filter P xs)" by auto
  then show ?thesis by (simp add: map_of_eq_None_iff)
qed

lemma get_country_info_other_key:
  assumes "code' \<noteq> code" and "map_of (cache st) code' = None"
  shows "map_of (cache (snd (get_country_info upper db code st))) code' = None"
proof (cases "map_of (cache st) code")
  case None
  have "map_of ((code, table_record upper db code) # cache st) code' = None"
    using assms by simp
  then show ?thesis
    unfolding get_country_info_miss[OF None] by (simp add: map_of_take_None)
next
  case (Some r)
  have "map_of (filter (\<lambda>e. fst e \<noteq> code) (cache st)) code' = None"
    using assms(2) by (rule map_of_filter_None)
  then show ?thesis
    unfolding get_country_info_cached[OF Some] using assms(1) by simp
qed

lemma sample_get_us:
  "get_country_info ascii_upper sample_db (Some ''US'') initial_state =
     (Some \<lparr>CountryDict.name = ''United States'', alpha_2 = ''US'', alpha_3 = Some ''USA'',
            numeric = Some ''840''\<rparr>,
      \<lparr>cache = [(Some ''US'',
                 Some \<lparr>CountryDict.name = ''United States'', alpha_2 = ''US'',
                       alpha_3 = Some ''USA'', numeric = Some ''840''\<rparr>)],
       queries = [''US'']\<rparr>)"
  by (simp add: get_country_info_def get_country_info_wrapped_def get_country_info_try_def
      initial_state_def sample_db_def sample_countries_def ascii_upper_def ascii_upper_char_def
      maxsize_def)

section \<open>Properties\<close>

subsection \<open>Number classifier\<close>

text \<open>
  C5: \<open>get_number_type_name\<close> is a total function. When the eleven line-type constants
  of the library are pairwise distinct, each of them is mapped to its own fixed label
  (\<open>known_labels\<close> lists the labels in the order of \<open>known_types\<close>), and every integer
  outside the eleven is mapped to \<^verbatim>\<open>UNKNOWN\<close>.
\<close>

theorem get_number_type_name_total:
  assumes "distinct (known_types t)"
  shows "map (get_number_type_name t) (known_types t) = known_labels \<and>
         (\<forall>x. x \<notin> set (known_types t) \<longrightarrow> get_number_type_name t x = ''UNKNOWN'')"
  using assms
  by (simp add: known_types_def known_labels_def get_number_type_name_def NUMBER_TYPE_MAPPING_def)

text \<open>
  The constants of the sample library are distinct; 10 is not among them and is
  classified as \<^verbatim>\<open>UNKNOWN\<close>.
\<close>

theorem get_number_type_name_total_witness:
  "distinct (known_types sample_types) \<and>
   map (get_number_type_name sample_types) (known_types sample_types) = known_labels \<and>
   10 \<notin> set (known_types sample_types) \<and>
   get_number_type_name sample_types 10 = ''UNKNOWN''"
proof -
  have d: "distinct (known_types sample_types)"
    by (simp add: known_types_def sample_types_def)
  have n: "10 \<notin> set (known_types sample_types)"
    by (simp add: known_types_def sample_types_def)
  from get_number_type_name_total [OF d] n d show ?thesis by blast
qed

subsection \<open>Token authenticator\<close>

text \<open>
  With an empty configured secret the empty token equals the secret and is still
  rejected: the guard on an absent or empty token comes first.
\<close>

theorem validate_api_token_empty_secret:
  "\<not> (validate_api_token '''' (Some '''') \<longleftrightarrow> Some '''' = Some (''''::string))"
  by (simp add: validate_api_token_def truthy_def)

text \<open>
  C6 (amended): \<open>validate_api_token\<close> returns false when the presented token is absent
  or empty; a non-empty presented token is accepted iff it equals the configured secret
  exactly. In one formula: the token is accepted iff it is present, non-empty and equal
  to the secret.
\<close>

theorem validate_api_token_iff:
  "validate_api_token secret presented \<longleftrightarrow>
     (\<exists>t. presented = Some t \<and> t \<noteq> [] \<and> t = secret)"
  by (cases presented) (auto simp: validate_api_token_def truthy_def)

subsection \<open>Country metadata resolver\<close>

text \<open>
  The cache is keyed by the argument as passed: from the initial state, \<^verbatim>\<open>us\<close>
  followed by \<^verbatim>\<open>US\<close>, which normalise to the same code, query the country table
  twice.
\<close>

theorem get_country_info_case_counterexample:
  "ascii_upper ''us'' = ascii_upper ''US'' \<and>
   queries (snd (get_country_info ascii_upper sample_db (Some ''US'')
                  (snd (get_country_info ascii_upper sample_db (Some ''us'') initial_state)))) =
     [''US'', ''US'']"
  by (simp add: get_country_info_def get_country_info_wrapped_def get_country_info_try_def
      initial_state_def sample_db_def sample_countries_def ascii_upper_def ascii_upper_char_def maxsize_def)

text \<open>
  C3 (amended): from a state that satisfies the cache invariant, \<open>get_country_info\<close>
  returns the record that the table holds for the uppercased code. A call whose
  argument is not cached queries the table once, with the uppercased code (not at all
  for an absent code); a call whose argument is cached makes no query. Either way the
  result is then cached under the argument as it was passed. So a second, consecutive
  call with the same argument returns the same record without a query (a cache hit),
  while a second call with a different argument that was not cached before queries the
  table again, even when both arguments have the same uppercase form; in that case it
  still returns the same record. The invariant is kept, so the cache never holds more
  than 256 entries.
\<close>

theorem get_country_info_memo:
  fixes upper db code code' st
  defines "st1 \<equiv> snd (get_country_info upper db code st)"
  defines "r1 \<equiv> fst (get_country_info upper db code st)"
  defines "r2 \<equiv> fst (get_country_info upper db code' st1)"
  defines "st2 \<equiv> snd (get_country_info upper db code' st1)"
  assumes inv: "cache_inv upper db st"
  shows "r1 = table_record upper db code \<and>
         (map_of (cache st) code = None \<longrightarrow>
            queries st1 = queries st @ table_queries upper code) \<and>
         (map_of (cache st) code \<noteq> None \<longrightarrow> queries st1 = queries st) \<and>
         map_of (cache st1) code = Some r1 \<and>
         (code' = code \<longrightarrow> r2 = r1 \<and> queries st2 = queries st1) \<and>
         (code' \<noteq> code \<and> map_of (cache st) code' = None \<longrightarrow>
            r2 = table_record upper db code' \<and>
            queries st2 = queries st1 @ table_queries upper code') \<and>
         (map_option upper code' = map_option upper code \<longrightarrow> r2 = r1) \<and>
         cache_inv upper db st1 \<and> length (cache st1) \<le> 256"
proof -
  have res1: "r1 = table_record upper db code"
    unfolding r1_def using get_country_info_result[OF inv, of code] by (simp add: wrapped_table)
  have miss: "queries st1 = queries st @ table_queries upper code"
    if "map_of (cache st) code = None"
    unfolding st1_def get_country_info_miss[OF that] by simp
  have hit: "queries st1 = queries st" if "map_of (cache st) code \<noteq> None"
  proof -
    from that obtain r where "map_of (cache st) code = Some r" by auto
    then show ?thesis unfolding st1_def by (simp add: get_country_info_cached)
  qed
  have stored: "map_of (cache st1) code = Some r1"
    unfolding st1_def r1_def by (rule get_country_info_hit)
  have inv1: "cache_inv upper db st1" unfolding st1_def using inv by (rule cache_inv_step)
  have res2: "r2 = table_record upper db code'"
    unfolding r2_def using get_country_info_result[OF inv1, of code'] by (simp add: wrapped_table)
  have same: "r2 = r1 \<and> queries st2 = queries st1" if "code' = code"
    using that stored unfolding r2_def st2_def by (simp add: get_country_info_cached)
  have other: "r2 = table_record upper db code' \<and>
      queries st2 = queries st1 @ table_queries upper code'"
    if "code' \<noteq> code \<and> map_of (cache st) code' = None"
  proof -
    from that have "map_of (cache st1) code' = None"
      unfolding st1_def by (simp add: get_country_info_other_key)
    then have "queries st2 = queries st1 @ table_queries upper code'"
      unfolding st2_def by (simp add: get_country_info_miss)
    with res2 show ?thesis by simp
  qed
  have norm: "r2 = r1" if "map_option upper code' = map_option upper code"
    using res1 res2 table_record_upper[OF that] by simp
  have len: "length (cache st1) \<le> 256" using inv1 by (simp add: cache_inv_def maxsize_def)
  from res1 miss hit stored same other norm inv1 len show ?thesis by blast
qed

text \<open>
  From the initial state on the sample table: \<^verbatim>\<open>us\<close> twice makes the single query
  \<^verbatim>\<open>US\<close>; \<^verbatim>\<open>US\<close> after \<^verbatim>\<open>us\<close> returns the same record and makes a second
  query.
\<close>

theorem get_country_info_memo_witness:
  "cache_inv ascii_upper sample_db initial_state \<and>
   map_of (cache initial_state) (Some ''us'') = None \<and>
   queries (snd (get_country_info ascii_upper sample_db (Some ''us'') initial_state)) = [''US''] \<and>
   fst (get_country_info ascii_upper sample_db (Some ''us'')
         (snd (get_country_info ascii_upper sample_db (Some ''us'') initial_state))) =
     fst (get_country_info ascii_upper sample_db (Some ''us'') initial_state) \<and>
   queries (snd (get_country_info ascii_upper sample_db (Some ''us'')
                  (snd (get_country_info ascii_upper sample_db (Some ''us'') initial_state)))) =
     [''US''] \<and>
   Some ''US'' \<noteq> Some ''us'' \<and> map_of (cache initial_state) (Some ''US'') = None \<and>
   map_option ascii_upper (Some ''US'') = map_option ascii_upper (Some ''us'') \<and>
   fst (get_country_info ascii_upper sample_db (Some ''US'')
         (snd (get_country_info ascii_upper sample_db (Some ''us'') initial_state))) =
     fst (get_country_info ascii_upper sample_db (Some ''us'') initial_state) \<and>
   queries (snd (get_country_info ascii_upper sample_db (Some ''US'')
                  (snd (get_country_info ascii_upper sample_db (Some ''us'') initial_state)))) =
     [''US'', ''US''] \<and>
   length (cache (snd (get_country_info ascii_upper sample_db (Some ''us'') initial_state))) \<le> 256"
proof -
  have i: "cache_inv ascii_upper sample_db initial_state" by (rule cache_inv_initial)
  have e1: "map_of (cache initial_state) (Some ''us'') = None"
    and e2: "map_of (cache initial_state) (Some ''US'') = None"
    and q0: "queries initial_state = []"
    by (simp_all add: initial_state_def)
  have d: "Some ''US'' \<noteq> Some ''us''" by simp
  have u: "map_option ascii_upper (Some ''US'') = map_option ascii_upper (Some ''us'')"
    by (simp add: ascii_upper_def ascii_upper_char_def)
  have t1: "table_queries ascii_upper (Some ''us'') = [''US'']"
    and t2: "table_queries ascii_upper (Some ''US'') = [''US'']"
    by (simp_all add: table_queries_def ascii_upper_def ascii_upper_char_def)
  note same = get_country_info_memo [OF i, of "Some ''us''" "Some ''us''"]
  note other = get_country_info_memo [OF i, of "Some ''us''" "Some ''US''"]
  have q1: "queries (snd (get_country_info ascii_upper sample_db (Some ''us'') initial_state)) = [''US'']"
    using same e1 q0 t1 by simp
  have r2: "fst (get_country_info ascii_upper sample_db (Some ''us'')
         (snd (get_country_info ascii_upper sample_db (Some ''us'') initial_state))) =
     fst (get_country_info ascii_upper sample_db (Some ''us'') initial_state)"
    and q2: "queries (snd (get_country_info ascii_upper sample_db (Some ''us'')
                  (snd (get_country_info ascii_upper sample_db (Some ''us'') initial_state)))) =
     [''US'']"
    using same q1 by simp_all
  have r3: "fst (get_country_info ascii_upper sample_db (Some ''US'')
         (snd (get_country_info ascii_upper sample_db (Some ''us'') initial_state))) =
     fst (get_country_info ascii_upper sample_db (Some ''us'') initial_state)"
    using other u by blast
  have q3: "queries (snd (get_country_info ascii_upper sample_db (Some ''US'')
                  (snd (get_country_info ascii_upper sample_db (Some ''us'') initial_state)))) =
     [''US'', ''US'']"
    using other d e2 q1 t2 by simp
  have len: "length (cache (snd (get_country_info ascii_upper sample_db (Some ''us'') initial_state))) \<le> 256"
    using same by blast
  from i e1 q1 r2 q2 d e2 u r3 q3 len show ?thesis by blast
qed

subsection \<open>Validation endpoint\<close>

text \<open>
  A number that parses but belongs to no region: the result has no error text and no
  country code either, because the region query of the library returned none.
\<close>

theorem validate_counterexample:
  "parse sample_lib ''+12005550123'' None = Parsed ''12005550123'' \<and>
   validate_phone_number sample_lib ''secret'' ''12005550123'' None ''secret'' =
     Inr \<lparr>phone = ''+12005550123'', is_valid = False, is_possible = True,
          country_code = None, error = None\<rparr>"
  by (simp add: validate_phone_number_def validate_api_token_def truthy_def startswith_def
      sample_lib_def sample_parse_def sample_region_def is_digit_def)

text \<open>
  C1 (amended): for an authorised call, let \<open>ph\<close> be the coerced phone string. When the
  parser raises \<^verbatim>\<open>NumberParseException\<close>, \<open>validate_phone_number\<close> returns a result
  with \<open>is_valid\<close> and \<open>is_possible\<close> false, no country code, and the text of the
  exception as error. When the parser succeeds, it returns a result without error text
  that carries the library's validity and possibility verdicts and whatever the region
  query returned, which may be no code. For every returned result, the error is set iff
  the parser raised \<^verbatim>\<open>NumberParseException\<close>.
\<close>

theorem validate_phone_number_result:
  fixes lib :: "'n phonenumbers" and phone_arg country API_TOKEN tok
  defines "ph \<equiv> plus_prefixed phone_arg country"
  defines "res \<equiv> validate_phone_number lib API_TOKEN phone_arg country tok"
  assumes auth: "validate_api_token API_TOKEN (Some tok)"
  shows "(\<forall>e. parse lib ph country = NumberParseException e \<longrightarrow>
            res = Inr \<lparr>phone = ph, is_valid = False, is_possible = False,
                        country_code = None, error = Some e\<rparr>) \<and>
         (\<forall>n. parse lib ph country = Parsed n \<longrightarrow>
            res = Inr \<lparr>phone = ph, is_valid = is_valid_number lib n,
                        is_possible = is_possible_number lib n,
                        country_code = region_code_for_number lib n, error = None\<rparr>) \<and>
         (\<forall>r. res = Inr r \<longrightarrow>
            (error r \<noteq> None \<longleftrightarrow> (\<exists>e. parse lib ph country = NumberParseException e)))"
  unfolding res_def ph_def validate_unfold[OF auth]
  by (auto split: parse_outcome.splits)

text \<open>
  On the sample library: \<^verbatim>\<open>not-a-number\<close> fails to parse and \<^verbatim>\<open>+14155552671\<close> parses.
\<close>

theorem validate_phone_number_result_witness:
  "validate_api_token ''secret'' (Some ''secret'') \<and>
   parse sample_lib (plus_prefixed ''not-a-number'' None) None =
     NumberParseException ''(1) The string supplied did not seem to be a phone number.'' \<and>
   validate_phone_number sample_lib ''secret'' ''not-a-number'' None ''secret'' =
     Inr \<lparr>phone = plus_prefixed ''not-a-number'' None, is_valid = False, is_possible = False,
          country_code = None,
          error = Some ''(1) The string supplied did not seem to be a phone number.''\<rparr> \<and>
   parse sample_lib (plus_prefixed ''+14155552671'' None) None = Parsed ''14155552671'' \<and>
   validate_phone_number sample_lib ''secret'' ''+14155552671'' None ''secret'' =
     Inr \<lparr>phone = plus_prefixed ''+14155552671'' None,
          is_valid = is_valid_number sample_lib ''14155552671'',
          is_possible = is_possible_number sample_lib ''14155552671'',
          country_code = region_code_for_number sample_lib ''14155552671'', error = None\<rparr>"
proof -
  have a: "validate_api_token ''secret'' (Some ''secret'')"
    by (simp add: validate_api_token_def truthy_def)
  have p1: "parse sample_lib (plus_prefixed ''not-a-number'' None) None =
     NumberParseException ''(1) The string supplied did not seem to be a phone number.''"
    by (simp add: sample_lib_def sample_parse_def plus_prefixed_def has_plus_def no_hint_def
        startswith_def is_digit_def)
  have p2: "parse sample_lib (plus_prefixed ''+14155552671'' None) None = Parsed ''14155552671''"
    by (simp add: sample_lib_def sample_parse_def plus_prefixed_def has_plus_def no_hint_def
        startswith_def is_digit_def)
  from validate_phone_number_result [OF a, of sample_lib "''not-a-number''" None] p1
       validate_phone_number_result [OF a, of sample_lib "''+14155552671''" None] p2 a
  show ?thesis by blast
qed

subsection \<open>Lookup endpoint\<close>

text \<open>
  C2: for an authorised call from a state that satisfies the cache invariant, with \<open>ph\<close>
  the coerced phone string: \<open>lookup_phone_number\<close> fails with status 400 exactly when
  \<open>ph\<close> does not parse; it fails with status 404 exactly when \<open>ph\<close> parses and the
  resolver has no record for the region of the parsed number; and when \<open>ph\<close> parses and
  the resolver has a record, the composed \<open>PhoneNumberInfo\<close> is returned.
\<close>

theorem lookup_phone_number_failures:
  fixes lib :: "'n phonenumbers" and phone_arg country API_TOKEN tok upper db st
  defines "ph \<equiv> plus_prefixed phone_arg country"
  defines "res \<equiv> fst (lookup_phone_number lib upper db API_TOKEN phone_arg country tok st)"
  assumes auth: "validate_api_token API_TOKEN (Some tok)"
    and inv: "cache_inv upper db st"
  shows "((\<exists>d. res = Inl (HTTPException 400 d)) \<longleftrightarrow> (\<forall>n. parse lib ph country \<noteq> Parsed n)) \<and>
         ((\<exists>d. res = Inl (HTTPException 404 d)) \<longleftrightarrow>
            (\<exists>n. parse lib ph country = Parsed n \<and>
                 fst (get_country_info_wrapped upper db (region_code_for_number lib n)) = None)) \<and>
         (\<forall>n info. parse lib ph country = Parsed n \<and>
              fst (get_country_info_wrapped upper db (region_code_for_number lib n)) = Some info \<longrightarrow>
              (\<exists>cc. region_code_for_number lib n = Some cc \<and>
                 res = Inr \<lparr>phone_number = str_of lib n,
                             country_code = cc,
                             country_name = CountryDict.name info,
                             country_region = None,
                             number_type =
                               get_number_type_name (PhoneNumberType lib)
                                 (phonenumbers.number_type lib n),
                             is_valid = is_valid_number lib n,
                             is_possible = is_possible_number lib n,
                             formatted_e164 = format_number lib n E164,
                             formatted_national = format_number lib n NATIONAL,
                             timezone = None\<rparr>))"
proof (cases "parse lib ph country")
  case (Parsed n)
  have g: "fst (get_country_info upper db (region_code_for_number lib n) st) =
           fst (get_country_info_wrapped upper db (region_code_for_number lib n))"
    using inv by (rule get_country_info_result)
  have r: "res = (case fst (get_country_info_wrapped upper db (region_code_for_number lib n)) of
              None \<Rightarrow>
                Inl (HTTPException 404 (''Country not found: '' @ fstr (region_code_for_number lib n)))
            | Some info \<Rightarrow>
                (case region_code_for_number lib n of
                   None \<Rightarrow> Inl (Exception ''ValidationError'')
                 | Some cc \<Rightarrow>
                     Inr \<lparr>phone_number = str_of lib n,
                          country_code = cc,
                          country_name = CountryDict.name info,
                          country_region = None,
                          number_type =
                            get_number_type_name (PhoneNumberType lib) (phonenumbers.number_type lib n),
                          is_valid = is_valid_number lib n,
                          is_possible = is_possible_number lib n,
                          formatted_e164 = format_number lib n E164,
                          formatted_national = format_number lib n NATIONAL,
                          timezone = None\<rparr>))"
    unfolding res_def using lookup_parsed[OF auth Parsed[unfolded ph_def]] g by simp
  show ?thesis
  proof (cases "region_code_for_number lib n")
    case None
    then show ?thesis using Parsed r by (simp add: wrapped_None)
  next
    case (Some cc)
    then show ?thesis using Parsed r
      by (cases "fst (get_country_info_wrapped upper db (Some cc))") simp_all
  qed
next
  case (NumberParseException e)
  then show ?thesis
    unfolding res_def using lookup_parse_error[OF auth NumberParseException[unfolded ph_def]]
    by simp
next
  case (OtherException e)
  then show ?thesis
    unfolding res_def using lookup_other_error[OF auth OtherException[unfolded ph_def]]
    by simp
qed

text \<open>
  On the samples: \<^verbatim>\<open>not-a-number\<close> gives 400, \<^verbatim>\<open>12005550123\<close> parses without a
  region and gives 404, and \<^verbatim>\<open>+14155552671\<close> is resolved to US.
\<close>

theorem lookup_phone_number_failures_witness:
  "validate_api_token ''secret'' (Some ''secret'') \<and> cache_inv ascii_upper sample_db initial_state \<and>
   (\<exists>d. fst (lookup_phone_number sample_lib ascii_upper sample_db ''secret'' ''not-a-number'' None ''secret''
              initial_state) = Inl (HTTPException 400 d)) \<and>
   (\<exists>d. fst (lookup_phone_number sample_lib ascii_upper sample_db ''secret'' ''12005550123'' None ''secret''
              initial_state) = Inl (HTTPException 404 d)) \<and>
   (\<exists>r. fst (lookup_phone_number sample_lib ascii_upper sample_db ''secret'' ''+14155552671'' None ''secret''
              initial_state) = Inr r \<and> PhoneNumberInfo.country_code r = ''US'')"
proof -
  note a = sample_auth and i = cache_inv_initial [of ascii_upper sample_db]
  have bad: "\<forall>n. parse sample_lib (plus_prefixed ''not-a-number'' None) None \<noteq> Parsed n"
    by (simp add: sample_parse_bad)
  have nf: "fst (get_country_info_wrapped ascii_upper sample_db (region_code_for_number sample_lib ''12005550123'')) = None"
    by (simp add: sample_region_none wrapped_None)
  have ok: "fst (get_country_info_wrapped ascii_upper sample_db (region_code_for_number sample_lib ''14155552671'')) =
      Some \<lparr>CountryDict.name = ''United States'', alpha_2 = ''US'', alpha_3 = Some ''USA'',
           numeric = Some ''840''\<rparr>"
    by (simp add: sample_region_us sample_resolve_us)
  have 1: "\<exists>d. fst (lookup_phone_number sample_lib ascii_upper sample_db ''secret'' ''not-a-number'' None ''secret''
              initial_state) = Inl (HTTPException 400 d)"
    using lookup_phone_number_failures [OF a i, of sample_lib "''not-a-number''" None] bad by blast
  have 2: "\<exists>d. fst (lookup_phone_number sample_lib ascii_upper sample_db ''secret'' ''12005550123'' None ''secret''
              initial_state) = Inl (HTTPException 404 d)"
    using lookup_phone_number_failures [OF a i, of sample_lib "''12005550123''" None]
      sample_parse_noregion nf by blast
  have 3: "\<exists>r. fst (lookup_phone_number sample_lib ascii_upper sample_db ''secret'' ''+14155552671'' None ''secret''
              initial_state) = Inr r \<and> PhoneNumberInfo.country_code r = ''US''"
    using lookup_phone_number_failures [OF a i, of sample_lib "''+14155552671''" None]
      sample_parse_us ok sample_region_us by auto
  from a i 1 2 3 show ?thesis by blast
qed

text \<open>
  C10: when the phone string parses but the region query yields no code, an authorised
  lookup from a state that satisfies the cache invariant fails with status 404. Inside
  the resolver the \<^verbatim>\<open>try\<close> block raises for the missing code (before any table
  query) and the resolver returns \<^verbatim>\<open>None\<close> instead of letting the exception out.
\<close>

theorem lookup_no_region_not_found:
  fixes lib :: "'n phonenumbers"
  assumes auth: "validate_api_token API_TOKEN (Some tok)"
    and inv: "cache_inv upper db st"
    and parsed: "parse lib (plus_prefixed phone_arg country) country = Parsed n"
    and no_region: "region_code_for_number lib n = None"
  shows "get_country_info_try upper db None = (Inl (Exception ''AttributeError''), []) \<and>
         fst (get_country_info upper db None st) = None \<and>
         fst (lookup_phone_number lib upper db API_TOKEN phone_arg country tok st) =
           Inl (HTTPException 404 ''Country not found: None'')"
proof -
  have t: "get_country_info_try upper db None = (Inl (Exception ''AttributeError''), [])"
    by (simp add: get_country_info_try_def)
  have g: "fst (get_country_info upper db None st) = None"
    using get_country_info_result[OF inv, of None] by (simp add: wrapped_None)
  have "fst (lookup_phone_number lib upper db API_TOKEN phone_arg country tok st) =
           Inl (HTTPException 404 ''Country not found: None'')"
    unfolding lookup_parsed[OF auth parsed] no_region g by (simp add: fstr_def)
  with t g show ?thesis by simp
qed

text \<open>
  On the samples, \<^verbatim>\<open>12005550123\<close> parses and has no region.
\<close>

theorem lookup_no_region_not_found_witness:
  "validate_api_token ''secret'' (Some ''secret'') \<and> cache_inv ascii_upper sample_db initial_state \<and>
   parse sample_lib (plus_prefixed ''12005550123'' None) None = Parsed ''12005550123'' \<and>
   region_code_for_number sample_lib ''12005550123'' = None \<and>
   fst (lookup_phone_number sample_lib ascii_upper sample_db ''secret'' ''12005550123'' None ''secret''
         initial_state) = Inl (HTTPException 404 ''Country not found: None'')"
  using lookup_no_region_not_found [OF sample_auth cache_inv_initial [of ascii_upper sample_db]
      sample_parse_noregion sample_region_none]
    sample_auth cache_inv_initial [of ascii_upper sample_db] sample_parse_noregion
    sample_region_none
  by blast

text \<open>
  C9: every successful lookup comes from a parsed number \<open>n\<close> of the coerced phone
  string; its \<open>phone_number\<close> field is the library's string form of \<open>n\<close> (a function
  of the parsed number alone), and its formatted fields are the library's E.164 and
  national renderings of \<open>n\<close>. When the library formats parsed numbers in E.164 shape,
  \<open>formatted_e164\<close> is a plus sign followed by digits only.
\<close>

theorem lookup_canonical_forms:
  fixes lib :: "'n phonenumbers"
  assumes ok: "fst (lookup_phone_number lib upper db API_TOKEN phone_arg country tok st) = Inr r"
    and fmt: "formats_e164 lib"
  shows "\<exists>n. parse lib (plus_prefixed phone_arg country) country = Parsed n \<and>
           phone_number r = str_of lib n \<and>
           formatted_e164 r = format_number lib n E164 \<and>
           formatted_national r = format_number lib n NATIONAL \<and>
           is_e164 (formatted_e164 r)"
proof -
  from lookup_success_cases[OF ok] obtain n cc and info :: CountryDict where
    p: "parse lib (plus_prefixed phone_arg country) country = Parsed n"
    and r: "r = \<lparr>phone_number = str_of lib n,
                country_code = cc,
                country_name = CountryDict.name info,
                country_region = None,
                number_type =
                  get_number_type_name (PhoneNumberType lib) (phonenumbers.number_type lib n),
                is_valid = is_valid_number lib n,
                is_possible = is_possible_number lib n,
                formatted_e164 = format_number lib n E164,
                formatted_national = format_number lib n NATIONAL,
                timezone = None\<rparr>" by blast
  from fmt p have "is_e164 (format_number lib n E164)"
    unfolding formats_e164_def by blast
  with p r show ?thesis by simp
qed

text \<open>
  On the samples, \<^verbatim>\<open>4155552671\<close> with the hint US is looked up as \<^verbatim>\<open>+14155552671\<close>.
\<close>

theorem lookup_canonical_forms_witness:
  "formats_e164 sample_lib \<and>
   (\<exists>r. fst (lookup_phone_number sample_lib ascii_upper sample_db ''secret'' ''4155552671'' (Some ''US'') ''secret''
              initial_state) = Inr r \<and>
        parse sample_lib (plus_prefixed ''4155552671'' (Some ''US'')) (Some ''US'') = Parsed ''14155552671'' \<and>
        phone_number r = str_of sample_lib ''14155552671'' \<and>
        formatted_e164 r = ''+14155552671'' \<and> is_e164 (formatted_e164 r))"
proof -
  have g: "fst (get_country_info ascii_upper sample_db (Some ''US'') initial_state) =
     Some \<lparr>CountryDict.name = ''United States'', alpha_2 = ''US'', alpha_3 = Some ''USA'',
           numeric = Some ''840''\<rparr>"
    using get_country_info_result[OF cache_inv_initial, of ascii_upper sample_db "Some ''US''"]
    by (simp add: sample_resolve_us)
  obtain r where r: "fst (lookup_phone_number sample_lib ascii_upper sample_db ''secret'' ''4155552671'' (Some ''US'')
      ''secret'' initial_state) = Inr r"
    unfolding lookup_parsed[OF sample_auth sample_parse_hint] sample_region_us g by simp
  have e: "format_number sample_lib ''14155552671'' E164 = ''+14155552671''"
    by (simp add: sample_lib_def)
  from lookup_canonical_forms [OF r sample_formats_e164] r sample_parse_hint e sample_formats_e164
  show ?thesis by auto
qed

subsection \<open>Properties of both endpoints\<close>

text \<open>
  C4: when the library's validity check implies its possibility check, every result
  record returned by \<open>lookup_phone_number\<close> or \<open>validate_phone_number\<close> that is valid
  is also possible.
\<close>

theorem valid_implies_possible:
  fixes lib :: "'n phonenumbers"
  assumes lib_ok: "valid_numbers_possible lib"
  shows "(\<forall>r. fst (lookup_phone_number lib upper db API_TOKEN phone_arg country tok st) = Inr r \<longrightarrow>
            (PhoneNumberInfo.is_valid r \<longrightarrow> PhoneNumberInfo.is_possible r)) \<and>
         (\<forall>v. validate_phone_number lib API_TOKEN phone_arg country tok = Inr v \<longrightarrow>
            (ValidationResult.is_valid v \<longrightarrow> ValidationResult.is_possible v))"
proof (intro conjI allI impI)
  fix r
  assume "fst (lookup_phone_number lib upper db API_TOKEN phone_arg country tok st) = Inr r"
    and "PhoneNumberInfo.is_valid r"
  with lookup_success_cases[of lib upper db API_TOKEN phone_arg country tok st r] lib_ok
  show "PhoneNumberInfo.is_possible r"
    by (auto simp: valid_numbers_possible_def)
next
  fix v
  assume v: "validate_phone_number lib API_TOKEN phone_arg country tok = Inr v"
    and valid: "ValidationResult.is_valid v"
  have auth: "validate_api_token API_TOKEN (Some tok)"
    using v by (cases "validate_api_token API_TOKEN (Some tok)") (simp_all add: validate_unauthorized)
  from v valid lib_ok show "ValidationResult.is_possible v"
    unfolding validate_unfold[OF auth]
    by (auto simp: valid_numbers_possible_def split: parse_outcome.splits)
qed

text \<open>
  The sample library satisfies the contract, and \<^verbatim>\<open>+14155552671\<close> is valid and
  possible in both endpoints.
\<close>

theorem valid_implies_possible_witness:
  "valid_numbers_possible sample_lib \<and>
   (\<exists>r. fst (lookup_phone_number sample_lib ascii_upper sample_db ''secret'' ''+14155552671'' None ''secret''
              initial_state) = Inr r \<and>
        PhoneNumberInfo.is_valid r \<and> PhoneNumberInfo.is_possible r) \<and>
   (\<exists>v. validate_phone_number sample_lib ''secret'' ''+14155552671'' None ''secret'' = Inr v \<and>
        ValidationResult.is_valid v \<and> ValidationResult.is_possible v)"
proof -
  note t = valid_implies_possible [OF sample_valid_possible,
      of ascii_upper sample_db "''secret''" "''+14155552671''" None "''secret''" initial_state]
  have 1: "\<exists>r. fst (lookup_phone_number sample_lib ascii_upper sample_db ''secret'' ''+14155552671'' None ''secret''
              initial_state) = Inr r \<and> PhoneNumberInfo.is_valid r \<and> PhoneNumberInfo.is_possible r"
    using t sample_lookup_us by simp
  have 2: "\<exists>v. validate_phone_number sample_lib ''secret'' ''+14155552671'' None ''secret'' = Inr v \<and>
        ValidationResult.is_valid v \<and> ValidationResult.is_possible v"
    using t sample_validate_us by simp
  from sample_valid_possible 1 2 show ?thesis by blast
qed

text \<open>
  C8: for an authorised call, both endpoints hand the parser the string
  \<open>plus_prefixed phone_arg country\<close>: the phone string prefixed with a plus sign iff it
  does not start with one and no country hint is given (an absent or empty hint), and
  unchanged otherwise. Each endpoint's outcome is the one decided by the parse of this
  string: \<open>validate_phone_number\<close> echoes the string in the \<open>phone\<close> field of every
  result, and \<open>lookup_phone_number\<close> answers 400 when it does not parse and continues
  with its parsed number otherwise. The parser is consulted at this string only:
  replacing it by any other parser that agrees with it there changes neither outcome.
\<close>

theorem plus_prefix_coercion:
  fixes lib :: "'n phonenumbers" and phone_arg country API_TOKEN tok upper db st
  defines "ph \<equiv> plus_prefixed phone_arg country"
  assumes auth: "validate_api_token API_TOKEN (Some tok)"
  shows "validate_phone_number lib API_TOKEN phone_arg country tok =
           (case parse lib ph country of
              Parsed n \<Rightarrow>
                Inr \<lparr>phone = ph,
                     is_valid = is_valid_number lib n,
                     is_possible = is_possible_number lib n,
                     country_code = region_code_for_number lib n,
                     error = None\<rparr>
            | NumberParseException e \<Rightarrow>
                Inr \<lparr>phone = ph, is_valid = False, is_possible = False,
                     country_code = None, error = Some e\<rparr>
            | OtherException e \<Rightarrow> Inl (Exception e)) \<and>
         lookup_phone_number lib upper db API_TOKEN phone_arg country tok st =
           (case parse lib ph country of
              NumberParseException e \<Rightarrow>
                (Inl (HTTPException 400 ''Invalid phone number format''), st)
            | OtherException e \<Rightarrow>
                (Inl (HTTPException 400 ''Error parsing phone number''), st)
            | Parsed n \<Rightarrow>
                (case get_country_info upper db (region_code_for_number lib n) st of
                   (None, st') \<Rightarrow>
                     (Inl (HTTPException 404
                             (''Country not found: '' @ fstr (region_code_for_number lib n))),
                      st')
                 | (Some info, st') \<Rightarrow>
                     (case region_code_for_number lib n of
                        None \<Rightarrow> (Inl (Exception ''ValidationError''), st')
                      | Some cc \<Rightarrow>
                          (Inr \<lparr>phone_number = str_of lib n,
                                country_code = cc,
                                country_name = CountryDict.name info,
                                country_region = None,
                                number_type =
                                  get_number_type_name (PhoneNumberType lib)
                                    (phonenumbers.number_type lib n),
                                is_valid = is_valid_number lib n,
                                is_possible = is_possible_number lib n,
                                formatted_e164 = format_number lib n E164,
                                formatted_national = format_number lib n NATIONAL,
                                timezone = None\<rparr>,
                           st')))) \<and>
         (\<forall>r. validate_phone_number lib API_TOKEN phone_arg country tok = Inr r \<longrightarrow>
            phone r = ph) \<and>
         (\<forall>p. p ph country = parse lib ph country \<longrightarrow>
            validate_phone_number (lib\<lparr>parse := p\<rparr>) API_TOKEN phone_arg country tok =
              validate_phone_number lib API_TOKEN phone_arg country tok \<and>
            lookup_phone_number (lib\<lparr>parse := p\<rparr>) upper db API_TOKEN phone_arg country tok st =
              lookup_phone_number lib upper db API_TOKEN phone_arg country tok st)"
proof (intro conjI allI impI)
  show "validate_phone_number lib API_TOKEN phone_arg country tok =
           (case parse lib ph country of
              Parsed n \<Rightarrow>
                Inr \<lparr>phone = ph,
                     is_valid = is_valid_number lib n,
                     is_possible = is_possible_number lib n,
                     country_code = region_code_for_number lib n,
                     error = None\<rparr>
            | NumberParseException e \<Rightarrow>
                Inr \<lparr>phone = ph, is_valid = False, is_possible = False,
                     country_code = None, error = Some e\<rparr>
            | OtherException e \<Rightarrow> Inl (Exception e))"
    unfolding ph_def by (rule validate_unfold[OF auth])
next
  show "lookup_phone_number lib upper db API_TOKEN phone_arg country tok st =
           (case parse lib ph country of
              NumberParseException e \<Rightarrow>
                (Inl (HTTPException 400 ''Invalid phone number format''), st)
            | OtherException e \<Rightarrow>
                (Inl (HTTPException 400 ''Error parsing phone number''), st)
            | Parsed n \<Rightarrow>
                (case get_country_info upper db (region_code_for_number lib n) st of
                   (None, st') \<Rightarrow>
                     (Inl (HTTPException 404
                             (''Country not found: '' @ fstr (region_code_for_number lib n))),
                      st')
                 | (Some info, st') \<Rightarrow>
                     (case region_code_for_number lib n of
                        None \<Rightarrow> (Inl (Exception ''ValidationError''), st')
                      | Some cc \<Rightarrow>
                          (Inr \<lparr>phone_number = str_of lib n,
                                country_code = cc,
                                country_name = CountryDict.name info,
                                country_region = None,
                                number_type =
                                  get_number_type_name (PhoneNumberType lib)
                                    (phonenumbers.number_type lib n),
                                is_valid = is_valid_number lib n,
                                is_possible = is_possible_number lib n,
                                formatted_e164 = format_number lib n E164,
                                formatted_national = format_number lib n NATIONAL,
                                timezone = None\<rparr>,
                           st'))))"
    unfolding ph_def lookup_phone_number_def coercion_eq using auth
    by (simp add: Let_def split: parse_outcome.splits prod.splits option.splits)
next
  fix r
  assume v: "validate_phone_number lib API_TOKEN phone_arg country tok = Inr r"
  then show "phone r = ph"
    unfolding ph_def validate_unfold[OF auth] by (auto split: parse_outcome.splits)
next
  fix p
  assume "p ph country = parse lib ph country"
  then show "validate_phone_number (lib\<lparr>parse := p\<rparr>) API_TOKEN phone_arg country tok =
              validate_phone_number lib API_TOKEN phone_arg country tok"
    unfolding ph_def validate_phone_number_def coercion_eq
    by (simp add: Let_def split: parse_outcome.splits)
next
  fix p
  assume "p ph country = parse lib ph country"
  then show "lookup_phone_number (lib\<lparr>parse := p\<rparr>) upper db API_TOKEN phone_arg country tok st =
              lookup_phone_number lib upper db API_TOKEN phone_arg country tok st"
    unfolding ph_def lookup_phone_number_def coercion_eq
    by (simp add: Let_def split: parse_outcome.splits prod.splits option.splits)
qed

text \<open>
  On the samples: without a hint \<^verbatim>\<open>14155552671\<close> is echoed with the plus sign and
  looked up as a US number, with the hint US \<^verbatim>\<open>4155552671\<close> is echoed unchanged, and a
  constant parser that agrees at the prefixed string gives the same lookup.
\<close>

theorem plus_prefix_coercion_witness:
  "validate_api_token ''secret'' (Some ''secret'') \<and>
   validate_phone_number sample_lib ''secret'' ''14155552671'' None ''secret'' =
     Inr \<lparr>phone = ''+14155552671'', is_valid = True, is_possible = True,
          country_code = Some ''US'', error = None\<rparr> \<and>
   validate_phone_number sample_lib ''secret'' ''4155552671'' (Some ''US'') ''secret'' =
     Inr \<lparr>phone = ''4155552671'', is_valid = True, is_possible = True,
          country_code = Some ''US'', error = None\<rparr> \<and>
   fst (lookup_phone_number sample_lib ascii_upper sample_db ''secret'' ''14155552671'' None
         ''secret'' initial_state) =
     Inr \<lparr>phone_number = ''Country Code: 1 National Number: 4155552671'',
          country_code = ''US'', country_name = ''United States'',
          country_region = None, number_type = ''FIXED_LINE_OR_MOBILE'',
          is_valid = True, is_possible = True,
          formatted_e164 = ''+14155552671'',
          formatted_national = ''4155552671'', timezone = None\<rparr> \<and>
   lookup_phone_number (sample_lib\<lparr>parse := \<lambda>s region. Parsed ''14155552671''\<rparr>) ascii_upper
       sample_db ''secret'' ''14155552671'' None ''secret'' initial_state =
     lookup_phone_number sample_lib ascii_upper sample_db ''secret'' ''14155552671'' None
       ''secret'' initial_state"
proof -
  note plain = plus_prefix_coercion [OF sample_auth, of sample_lib "''14155552671''" None
      ascii_upper sample_db initial_state]
  note hint = plus_prefix_coercion [OF sample_auth, of sample_lib "''4155552671''" "Some ''US''"
      ascii_upper sample_db initial_state]
  have p1: "plus_prefixed ''14155552671'' None = ''+14155552671''"
    by (simp add: plus_prefixed_def has_plus_def no_hint_def)
  have p2: "plus_prefixed ''4155552671'' (Some ''US'') = ''4155552671''"
    by (simp add: plus_prefixed_def has_plus_def no_hint_def)
  have f: "is_valid_number sample_lib ''14155552671''"
    "is_possible_number sample_lib ''14155552671''"
    "str_of sample_lib ''14155552671'' = ''Country Code: 1 National Number: 4155552671''"
    "format_number sample_lib ''14155552671'' E164 = ''+14155552671''"
    "format_number sample_lib ''14155552671'' NATIONAL = ''4155552671''"
    "get_number_type_name (PhoneNumberType sample_lib)
       (phonenumbers.number_type sample_lib ''14155552671'') = ''FIXED_LINE_OR_MOBILE''"
    by (simp_all add: sample_lib_def sample_region_def startswith_def get_number_type_name_def
        NUMBER_TYPE_MAPPING_def sample_types_def)
  have v1: "validate_phone_number sample_lib ''secret'' ''14155552671'' None ''secret'' =
     Inr \<lparr>phone = ''+14155552671'', is_valid = True, is_possible = True,
          country_code = Some ''US'', error = None\<rparr>"
    using plain sample_parse_plain sample_region_us f by (simp add: p1)
  have v2: "validate_phone_number sample_lib ''secret'' ''4155552671'' (Some ''US'') ''secret'' =
     Inr \<lparr>phone = ''4155552671'', is_valid = True, is_possible = True,
          country_code = Some ''US'', error = None\<rparr>"
    using hint sample_parse_hint sample_region_us f by (simp add: p2)
  have l: "fst (lookup_phone_number sample_lib ascii_upper sample_db ''secret'' ''14155552671'' None
         ''secret'' initial_state) =
     Inr \<lparr>phone_number = ''Country Code: 1 National Number: 4155552671'',
          country_code = ''US'', country_name = ''United States'',
          country_region = None, number_type = ''FIXED_LINE_OR_MOBILE'',
          is_valid = True, is_possible = True,
          formatted_e164 = ''+14155552671'',
          formatted_national = ''4155552671'', timezone = None\<rparr>"
    using plain sample_parse_plain sample_region_us sample_get_us f by (simp add: p1)
  have agree: "(\<lambda>s region. Parsed ''14155552671'') (plus_prefixed ''14155552671'' None) None =
      parse sample_lib (plus_prefixed ''14155552671'' None) None"
    by (simp add: sample_parse_plain)
  have c: "lookup_phone_number (sample_lib\<lparr>parse := \<lambda>s region. Parsed ''14155552671''\<rparr>) ascii_upper
       sample_db ''secret'' ''14155552671'' None ''secret'' initial_state =
     lookup_phone_number sample_lib ascii_upper sample_db ''secret'' ''14155552671'' None
       ''secret'' initial_state"
    using plain [THEN conjunct2, THEN conjunct2, THEN conjunct2, rule_format,
        of "\<lambda>s region. Parsed ''14155552671''"] agree
    by simp
  from sample_auth v1 v2 l c show ?thesis by blast
qed

subsection \<open>Country listing endpoint\<close>

text \<open>
  C7: for an authorised call on a table whose records all carry the four attributes
  and whose \<open>alpha_2\<close> codes are pairwise distinct, \<open>get_supported_countries\<close> returns a
  response that lists exactly the table's records, each projected to its name,
  \<open>alpha_2\<close>, \<open>alpha_3\<close> and \<open>numeric\<close>; the list is sorted ascending by name in
  lexicographic order, \<open>total\<close> is its length, and no \<open>alpha_2\<close> occurs twice.
\<close>

theorem get_supported_countries_sorted:
  assumes auth: "validate_api_token API_TOKEN (Some tok)"
    and complete: "list_all complete_record (pycountry.countries db)"
    and keys: "distinct (map Country.alpha_2 (pycountry.countries db))"
  shows "\<exists>r. get_supported_countries db API_TOKEN tok = Inr r \<and>
           mset (map info_fields (CountriesResponse.countries r)) =
             mset (map country_fields (pycountry.countries db)) \<and>
           sorted (map CountryInfo.name (CountriesResponse.countries r)) \<and>
           total r = int (length (CountriesResponse.countries r)) \<and>
           distinct (map CountryInfo.alpha_2 (CountriesResponse.countries r))"
proof -
  from append_countries_complete[OF complete, of "[]"] obtain out where
    out: "append_countries (pycountry.countries db) [] = Inr out"
    and m: "map info_fields out = map country_fields (pycountry.countries db)" by auto
  let ?s = "sort_key CountryInfo.name out"
  let ?r = "\<lparr>total = int (length ?s), countries = ?s\<rparr>"
  have r: "get_supported_countries db API_TOKEN tok = Inr ?r"
    using auth out by (simp add: get_supported_countries_def Let_def)
  have ms: "mset (map info_fields ?s) = mset (map country_fields (pycountry.countries db))"
    using m by (metis mset_map mset_sort)
  have "map CountryInfo.alpha_2 out = map Country.alpha_2 (pycountry.countries db)"
    unfolding info_alpha_2 country_alpha_2 using m by (metis map_map)
  then have "distinct (map CountryInfo.alpha_2 out)" using keys by simp
  moreover have "mset (map CountryInfo.alpha_2 ?s) = mset (map CountryInfo.alpha_2 out)"
    by simp
  ultimately have d: "distinct (map CountryInfo.alpha_2 ?s)"
    by (metis mset_eq_imp_distinct_iff)
  have s: "sorted (map CountryInfo.name ?s)" by (rule sorted_sort_key)
  from r ms s d show ?thesis by simp
qed

text \<open>
  The sample table is listed as Greece, United Kingdom, United States.
\<close>

theorem get_supported_countries_sorted_witness:
  "validate_api_token ''secret'' (Some ''secret'') \<and>
   list_all complete_record (pycountry.countries sample_db) \<and>
   distinct (map Country.alpha_2 (pycountry.countries sample_db)) \<and>
   (\<exists>r. get_supported_countries sample_db ''secret'' ''secret'' = Inr r \<and>
        map CountryInfo.name (CountriesResponse.countries r) =
          [''Greece'', ''United Kingdom'', ''United States''] \<and>
        sorted (map CountryInfo.name (CountriesResponse.countries r)) \<and>
        total r = 3 \<and>
        distinct (map CountryInfo.alpha_2 (CountriesResponse.countries r)))"
proof -
  have c: "list_all complete_record (pycountry.countries sample_db)"
    by (simp add: sample_db_def sample_countries_def complete_record_def)
  have k: "distinct (map Country.alpha_2 (pycountry.countries sample_db))"
    by (simp add: sample_db_def sample_countries_def)
  have run: "get_supported_countries sample_db ''secret'' ''secret'' =
      Inr \<lparr>total = 3,
           countries =
             [\<lparr>CountryInfo.name = ''Greece'', alpha_2 = ''GR'', alpha_3 = ''GRC'', numeric = ''300''\<rparr>,
              \<lparr>CountryInfo.name = ''United Kingdom'', alpha_2 = ''GB'', alpha_3 = ''GBR'', numeric = ''826''\<rparr>,
              \<lparr>CountryInfo.name = ''United States'', alpha_2 = ''US'', alpha_3 = ''USA'', numeric = ''840''\<rparr>]\<rparr>"
    using sample_auth
    by (simp add: get_supported_countries_def sample_db_def sample_countries_def)
  from get_supported_countries_sorted [OF sample_auth c k] run sample_auth c k
  show ?thesis by auto
qed

end
